theory Spec2Isabelle
  imports Complex_Main
begin

section \<open>CryptoPriceGraph: the rendering engine of graph.py\<close>

text \<open>
  Prices are Python floats in the source. They are modelled as real numbers: the
  arithmetic of the source (subtraction, division, multiplication by 0.05) is read
  as exact arithmetic, and non-finite floats are outside the model. Row and column
  indices, widths and heights are Python integers and are modelled as \<open>int\<close>.
\<close>

subsection \<open>Coordinate mapping\<close>



subsection \<open>Python values: errors, strings, lists\<close>

text \<open>The exceptions the rendering code can raise; a raise is the value \<open>Inl e\<close>.\<close>

datatype py_error = ValueError | IndexError | ZeroDivisionError







subsection \<open>Colors\<close>




subsection \<open>The price series and the canvas\<close>

text \<open>
  The dictionary returned by \<open>get_historical_prices\<close> (lines 180-186): five lists
  under the keys \<open>timestamps\<close>, \<open>open\<close>, \<open>high\<close>, \<open>low\<close> and \<open>close\<close>. The fields
  carry the names of the lists that function builds. The type of a timestamp is left
  open; the code only formats timestamps.
\<close>

record 'ts price_data =
  timestamps :: "'ts list"
  open_prices :: "real list"
  high_prices :: "real list"
  low_prices :: "real list"
  close_prices :: "real list"







subsection \<open>The candle renderer\<close>

text \<open>The column of candle \<open>i\<close>: the local \<open>x\<close> of \<open>render_candle_graph\<close>
  (lines 338 and 376-377).\<close>

definition candle_x :: "int \<Rightarrow> int \<Rightarrow> int \<Rightarrow> int" where
  "candle_x i graph_width num_periods =
     (let chars_per_candle = max 1 (graph_width div num_periods);
          x = (i * graph_width) div num_periods + (chars_per_candle div 2)
      in min x (graph_width - 1))"








subsection \<open>The dot renderer\<close>

text \<open>The column of point \<open>i\<close>: the local \<open>x\<close> of \<open>render_dot_graph\<close>
  (lines 416 and 453-454).\<close>

definition dot_x :: "int \<Rightarrow> int \<Rightarrow> int \<Rightarrow> int" where
  "dot_x i graph_width num_periods =
     (let chars_per_candle = max 1 (graph_width div num_periods);
          x = (i * graph_width) div num_periods + (chars_per_candle div 2)
      in min x (graph_width - 1))"







subsection \<open>Notions used in the statements\<close>







text \<open>\<open>indexToCol\<close> as the specification words it: the floors are floors of real
  quotients.\<close>

definition indexToCol :: "int \<Rightarrow> int \<Rightarrow> int \<Rightarrow> int" where
  "indexToCol i seriesLength graphWidth =
     (let perPointWidth = max 1 \<lfloor>real_of_int graphWidth / real_of_int seriesLength\<rfloor>;
          col = \<lfloor>real_of_int (i * graphWidth) / real_of_int seriesLength\<rfloor>
                  + \<lfloor>real_of_int perPointWidth / 2\<rfloor>
      in min col (graphWidth - 1))"

subsection \<open>The price range\<close>

text \<open>Python's \<open>min\<close> and \<open>max\<close> of a list: \<open>ValueError\<close> on the empty list,
  otherwise one pass that keeps the smallest (largest) value seen.\<close>

definition py_min :: "real list \<Rightarrow> py_error + real" where
  "py_min xs = (case xs of [] \<Rightarrow> Inl ValueError | x # rest \<Rightarrow> Inr (fold min rest x))"

definition py_max :: "real list \<Rightarrow> py_error + real" where
  "py_max xs = (case xs of [] \<Rightarrow> Inl ValueError | x # rest \<Rightarrow> Inr (fold max rest x))"

text \<open>\<open>calculate_price_range\<close> (lines 259-271).\<close>

definition calculate_price_range :: "'ts price_data \<Rightarrow> py_error + real \<times> real" where
  "calculate_price_range price_data =
     (let all_prices = high_prices price_data @ low_prices price_data @ close_prices price_data
      in case py_min all_prices of
           Inl e \<Rightarrow> Inl e
         | Inr min_price \<Rightarrow>
        (case py_max all_prices of
           Inl e \<Rightarrow> Inl e
         | Inr max_price \<Rightarrow>
             let price_range = max_price - min_price;
                 padding = price_range * 0.05
             in Inr (min_price - padding, max_price + padding)))"

text \<open>\<open>computeBounds\<close> as the specification words it (section 4.3), with the floor and
  the ceiling it names.\<close>

definition computeBounds_spec :: "'ts price_data \<Rightarrow> real \<times> real" where
  "computeBounds_spec series =
     (let vals = set (high_prices series) \<union> set (low_prices series) \<union> set (close_prices series);
          lowest = Min vals;
          highest = Max vals;
          rng = highest - lowest
      in (of_int \<lfloor>lowest\<rfloor> - 0.05 * rng, of_int \<lceil>highest\<rceil> + 0.05 * rng))"

subsection \<open>The layout\<close>

text \<open>\<open>calculate_graph_dimensions\<close> (lines 292-313). A configured width or height is
  \<open>None\<close> or an integer; \<open>if config_width\<close> and \<open>config_height or ...\<close> take \<open>None\<close>
  and 0 as absent.\<close>

definition calculate_graph_dimensions ::
  "int option \<Rightarrow> int option \<Rightarrow> int \<Rightarrow> int \<Rightarrow> int \<times> int" where
  "calculate_graph_dimensions config_width config_height terminal_width terminal_height =
     (let y_axis_width = 11;
          x_label_margin = 10;
          available_width =
            (case config_width of
               Some w \<Rightarrow> if w \<noteq> 0 then w - y_axis_width
                         else terminal_width - y_axis_width - x_label_margin
             | None \<Rightarrow> terminal_width - y_axis_width - x_label_margin);
          available_height =
            (case config_height of
               Some h \<Rightarrow> if h \<noteq> 0 then h else terminal_height
             | None \<Rightarrow> terminal_height) - 4;
          graph_width = max 20 (min available_width (terminal_width - y_axis_width));
          graph_height = max 5 (min available_height (terminal_height - 4))
      in (graph_width, graph_height))"

subsection \<open>Python string operations\<close>















subsection \<open>The environment and the configuration\<close>







subsection \<open>The output composer\<close>









section \<open>Properties\<close>

subsection \<open>Coordinate mapping\<close>






subsection \<open>Writing to the canvas\<close>












subsection \<open>The renderers\<close>






text \<open>
  C6. For a series of at least one point, an index inside it and a width of at least
  one column, the column both renderers compute for the index is the one \<open>indexToCol\<close>
  of the specification gives: the floor of \<open>i * graphWidth / seriesLength\<close> plus the
  floor of half the width per point, which is at least 1, no larger than
  \<open>graphWidth - 1\<close>.
\<close>

theorem renderers_column_is_indexToCol:
  assumes "1 \<le> seriesLength" and "0 \<le> i" and "i < seriesLength" and "1 \<le> graphWidth"
  shows "candle_x i graphWidth seriesLength = indexToCol i seriesLength graphWidth
       \<and> dot_x i graphWidth seriesLength = indexToCol i seriesLength graphWidth"
proof -
  have a: "\<lfloor>real_of_int graphWidth / real_of_int seriesLength\<rfloor> = graphWidth div seriesLength"
    by (rule floor_divide_of_int_eq)
  have b: "\<lfloor>real_of_int (i * graphWidth) / real_of_int seriesLength\<rfloor>
             = (i * graphWidth) div seriesLength"
    by (rule floor_divide_of_int_eq)
  have c: "\<And>k::int. \<lfloor>real_of_int k / 2\<rfloor> = k div 2"
    using floor_divide_of_int_eq [where ?'a = real, of _ 2] by simp
  show ?thesis
    unfolding candle_x_def dot_x_def indexToCol_def a b c by simp
qed

theorem renderers_column_is_indexToCol_witness:
  "candle_x 3 10 4 = 8 \<and> dot_x 3 10 4 = 8 \<and> indexToCol 3 4 10 = 8"
proof -
  have h: "(1::int) \<le> 4" "(0::int) \<le> 3" "(3::int) < 4" "(1::int) \<le> 10" by simp_all
  have "candle_x 3 10 4 = 8" by (simp add: candle_x_def Let_def)
  with renderers_column_is_indexToCol [OF h] show ?thesis by simp
qed




















subsection \<open>The price range\<close>

lemma py_min_Min: "xs \<noteq> [] \<Longrightarrow> py_min xs = Inr (Min (set xs))"
proof (cases xs)
  case Nil
  assume "xs \<noteq> []"
  with Nil show ?thesis by simp
next
  case (Cons x rest)
  have "fold min rest x = Min (set (x # rest))" by (rule Min.set_eq_fold [symmetric])
  with Cons show ?thesis by (simp add: py_min_def)
qed

lemma py_max_Max: "xs \<noteq> [] \<Longrightarrow> py_max xs = Inr (Max (set xs))"
proof (cases xs)
  case Nil
  assume "xs \<noteq> []"
  with Nil show ?thesis by simp
next
  case (Cons x rest)
  have "fold max rest x = Max (set (x # rest))" by (rule Max.set_eq_fold [symmetric])
  with Cons show ?thesis by (simp add: py_max_def)
qed

text \<open>
  C2 (as amended). For a series of at least one point, \<open>calculate_price_range\<close>
  returns \<open>lowest - 0.05 * range\<close> and \<open>highest + 0.05 * range\<close>, where lowest and
  highest are the least and the greatest of all high, low and close values and
  \<open>range = highest - lowest\<close>: the bounds are padded, not rounded.
\<close>

theorem calculate_price_range_padded:
  assumes "close_prices price_data \<noteq> []"
  shows "calculate_price_range price_data =
           Inr (let vals = set (high_prices price_data) \<union> set (low_prices price_data)
                             \<union> set (close_prices price_data);
                    lowest = Min vals;
                    highest = Max vals;
                    rng = highest - lowest
                in (lowest - 0.05 * rng, highest + 0.05 * rng))"
proof -
  let ?all = "high_prices price_data @ low_prices price_data @ close_prices price_data"
  from assms have ne: "?all \<noteq> []" by simp
  have s: "set ?all = set (high_prices price_data) \<union> set (low_prices price_data)
                        \<union> set (close_prices price_data)"
    by auto
  show ?thesis
    unfolding calculate_price_range_def Let_def py_min_Min [OF ne] py_max_Max [OF ne] s
    by simp
qed

theorem calculate_price_range_padded_witness:
  "calculate_price_range
     \<lparr>timestamps = [0::nat], open_prices = [1], high_prices = [3 / 2],
      low_prices = [1 / 2], close_prices = [1]\<rparr> = Inr (9 / 20, 31 / 20)"
proof -
  let ?pd = "\<lparr>timestamps = [0::nat], open_prices = [1], high_prices = [3 / 2],
      low_prices = [1 / 2], close_prices = [1::real]\<rparr>"
  have h: "close_prices ?pd \<noteq> []" by simp
  from calculate_price_range_padded [OF h] show ?thesis by (simp add: Let_def)
qed

theorem computeBounds_floor_ceiling_counterexample:
  "calculate_price_range
     \<lparr>timestamps = [0::nat], open_prices = [1], high_prices = [3 / 2],
      low_prices = [1 / 2], close_prices = [1]\<rparr> = Inr (9 / 20, 31 / 20)
   \<and> computeBounds_spec
     \<lparr>timestamps = [0::nat], open_prices = [1], high_prices = [3 / 2],
      low_prices = [1 / 2], close_prices = [1]\<rparr> = (- 1 / 20, 41 / 20)
   \<and> calculate_price_range
     \<lparr>timestamps = [0::nat], open_prices = [1], high_prices = [3 / 2],
      low_prices = [1 / 2], close_prices = [1]\<rparr>
     \<noteq> Inr (computeBounds_spec
     \<lparr>timestamps = [0::nat], open_prices = [1], high_prices = [3 / 2],
      low_prices = [1 / 2], close_prices = [1]\<rparr>)"
  by (simp add: calculate_price_range_def py_min_def py_max_def computeBounds_spec_def Let_def)

subsection \<open>The layout\<close>

text \<open>
  C5 (as amended). \<open>calculate_graph_dimensions\<close> reserves 11 columns for the price
  axis, 10 more when no width is configured (a configured width of 0 counts as none),
  and 4 rows; the width wanted is cut to \<open>terminal_width - 11\<close>, the height wanted to
  \<open>terminal_height - 4\<close>, and the floor of 20 columns and 5 rows is applied last. So
  the result is always at least 20 by 5, and it is within the terminal space exactly
  when the terminal leaves 20 columns and 5 rows.
\<close>

theorem calculate_graph_dimensions_floor_last:
  "(config_width = None \<or> config_width = Some 0 \<longrightarrow>
      fst (calculate_graph_dimensions config_width config_height terminal_width terminal_height)
        = max 20 (terminal_width - 11 - 10))
   \<and> (\<forall>w. config_width = Some w \<and> w \<noteq> 0 \<longrightarrow>
      fst (calculate_graph_dimensions config_width config_height terminal_width terminal_height)
        = max 20 (min (w - 11) (terminal_width - 11)))
   \<and> (config_height = None \<or> config_height = Some 0 \<longrightarrow>
      snd (calculate_graph_dimensions config_width config_height terminal_width terminal_height)
        = max 5 (terminal_height - 4))
   \<and> (\<forall>h. config_height = Some h \<and> h \<noteq> 0 \<longrightarrow>
      snd (calculate_graph_dimensions config_width config_height terminal_width terminal_height)
        = max 5 (min (h - 4) (terminal_height - 4)))
   \<and> 20 \<le> fst (calculate_graph_dimensions config_width config_height terminal_width
                   terminal_height)
   \<and> 5 \<le> snd (calculate_graph_dimensions config_width config_height terminal_width
                  terminal_height)
   \<and> (fst (calculate_graph_dimensions config_width config_height terminal_width terminal_height)
          \<le> terminal_width - 11) = (20 \<le> terminal_width - 11)
   \<and> (snd (calculate_graph_dimensions config_width config_height terminal_width terminal_height)
          \<le> terminal_height - 4) = (5 \<le> terminal_height - 4)"
  by (auto simp: calculate_graph_dimensions_def Let_def split: option.splits)

theorem calculate_graph_dimensions_floor_last_witness:
  "calculate_graph_dimensions None None 80 24 = (59, 20)
   \<and> calculate_graph_dimensions (Some 50) (Some 14) 80 24 = (39, 10)
   \<and> calculate_graph_dimensions (Some 200) (Some 0) 80 24 = (69, 20)
   \<and> calculate_graph_dimensions (Some 0) (Some 100) 80 24 = (59, 20)"
proof -
  have a: "(None::int option) = None \<or> (None::int option) = Some 0" by simp
  have b: "Some (50::int) = Some 50 \<and> (50::int) \<noteq> 0" by simp
  have c: "Some (14::int) = Some 14 \<and> (14::int) \<noteq> 0" by simp
  have d: "Some (200::int) = Some 200 \<and> (200::int) \<noteq> 0" by simp
  have e: "Some (0::int) = None \<or> Some (0::int) = Some 0" by simp
  have f: "Some (100::int) = Some 100 \<and> (100::int) \<noteq> 0" by simp
  note t1 = calculate_graph_dimensions_floor_last [of None None 80 24]
  note t2 = calculate_graph_dimensions_floor_last [of "Some 50" "Some 14" 80 24]
  note t3 = calculate_graph_dimensions_floor_last [of "Some 200" "Some 0" 80 24]
  note t4 = calculate_graph_dimensions_floor_last [of "Some 0" "Some 100" 80 24]
  have "fst (calculate_graph_dimensions None None 80 24) = 59"
    "snd (calculate_graph_dimensions None None 80 24) = 20"
    using t1 [THEN conjunct1, rule_format, OF a]
      t1 [THEN conjunct2, THEN conjunct2, THEN conjunct1, rule_format, OF a]
    by simp_all
  moreover have "fst (calculate_graph_dimensions (Some 50) (Some 14) 80 24) = 39"
    "snd (calculate_graph_dimensions (Some 50) (Some 14) 80 24) = 10"
    using t2 [THEN conjunct2, THEN conjunct1, rule_format, OF b]
      t2 [THEN conjunct2, THEN conjunct2, THEN conjunct2, THEN conjunct1, rule_format, OF c]
    by simp_all
  moreover have "fst (calculate_graph_dimensions (Some 200) (Some 0) 80 24) = 69"
    "snd (calculate_graph_dimensions (Some 200) (Some 0) 80 24) = 20"
    using t3 [THEN conjunct2, THEN conjunct1, rule_format, OF d]
      t3 [THEN conjunct2, THEN conjunct2, THEN conjunct1, rule_format, OF e]
    by simp_all
  moreover have "fst (calculate_graph_dimensions (Some 0) (Some 100) 80 24) = 59"
    "snd (calculate_graph_dimensions (Some 0) (Some 100) 80 24) = 20"
    using t4 [THEN conjunct1, rule_format, OF e]
      t4 [THEN conjunct2, THEN conjunct2, THEN conjunct2, THEN conjunct1, rule_format, OF f]
    by simp_all
  ultimately show ?thesis by (simp add: prod_eq_iff)
qed

theorem calculate_graph_dimensions_ceiling_counterexample:
  "calculate_graph_dimensions None None 15 6 = (20, 5)
   \<and> \<not> fst (calculate_graph_dimensions None None 15 6) \<le> 15 - 11
   \<and> \<not> fst (calculate_graph_dimensions None None 15 6) \<le> 15
   \<and> \<not> snd (calculate_graph_dimensions None None 15 6) \<le> 6 - 4"
  by (simp add: calculate_graph_dimensions_def Let_def)

subsection \<open>The output composer\<close>














end
